theory Spec2Isabelle
  imports Main "HOL-Library.Sublist"
begin

section \<open>Data model of \<open>src/server.js\<close>\<close>

text \<open>
  The server keeps two module-level arrays, \<open>warehouses\<close> and \<open>products\<close>, and
  exposes GraphQL resolvers over them. Objects of the arrays are records here; the
  two arrays together are the store, passed to and returned by every resolver that
  writes. The fields \<open>id\<close> and \<open>name\<close> occur in both object shapes and \<open>id\<close> is a
  constant of HOL, so they carry a suffix: \<open>idW\<close>, \<open>nameW\<close> for a warehouse and
  \<open>idP\<close>, \<open>nameP\<close> for a product.

  Numbers: \<open>stock\<close>, \<open>demand\<close>, \<open>quantity\<close>, \<open>page\<close> and \<open>limit\<close> enter through
  the GraphQL type \<open>Int\<close> (signed 32 bit). The code only compares them and adds
  \<open>page + limit\<close>, which a JavaScript number holds exactly, so they are \<open>int\<close> and
  no wrap-around occurs.
\<close>

record warehouse =
  idW :: string
  nameW :: string

record product =
  idP :: string
  nameP :: string
  sku :: string
  warehouseId :: string
  stock :: int
  demand :: int

text \<open>
  What a resolver returns for a product: the object spread \<open>{...product, warehouse,
  status}\<close>. \<open>warehouse\<close> is the result of \<open>Array.prototype.find\<close>, which is
  \<open>undefined\<close> (here \<open>None\<close>) when no warehouse has the id.
\<close>

record product_view = product +
  warehouse :: "warehouse option"
  status :: string

record store =
  warehouses :: "warehouse list"
  products :: "product list"

text \<open>
  An optional GraphQL input: the key is missing (\<open>Undefined\<close>), it is an explicit
  \<open>null\<close>, or it holds a value.
\<close>

datatype 'a js_arg = Undefined | Null | Val 'a

record ProductFilters =
  search :: "string js_arg"
  filter_warehouseId :: "string js_arg"
  filter_status :: "string js_arg"

record PaginationInput =
  page :: "int js_arg"
  limit :: "int js_arg"

record PageInfo =
  hasNextPage :: bool
  hasPreviousPage :: bool

record ProductConnection =
  items :: "product_view list"
  total :: int
  pageInfo :: PageInfo

text \<open>
  Every \<open>throw new Error(...)\<close> of the resolvers, with the values its message
  interpolates, and the \<open>TypeError\<close> that destructuring \<open>null\<close> raises.
\<close>

datatype error =
    ProductNotFound string
  | InvalidSource string
  | WarehouseNotFound string
  | InsufficientStock int int
  | TypeError

subsection \<open>The seed data (lines 5 to 20)\<close>

definition seed_warehouses :: "warehouse list" where
  "seed_warehouses =
    [\<lparr>idW = ''BLR-A'', nameW = ''Bangalore Warehouse A''\<rparr>,
     \<lparr>idW = ''BLR-B'', nameW = ''Bangalore Warehouse B''\<rparr>,
     \<lparr>idW = ''PNQ-C'', nameW = ''Pune Warehouse C''\<rparr>,
     \<lparr>idW = ''DEL-B'', nameW = ''Delhi Warehouse B''\<rparr>,
     \<lparr>idW = ''MUM-A'', nameW = ''Mumbai Warehouse A''\<rparr>]"

definition seed_products :: "product list" where
  "seed_products =
    [\<lparr>idP = ''P-1001'', nameP = ''12mm Hex Bolt'', sku = ''HEX-12-100'',
      warehouseId = ''BLR-A'', stock = 180, demand = 120\<rparr>,
     \<lparr>idP = ''P-1002'', nameP = ''Steel Washer'', sku = ''WSR-08-500'',
      warehouseId = ''BLR-A'', stock = 50, demand = 80\<rparr>,
     \<lparr>idP = ''P-1003'', nameP = ''M8 Nut'', sku = ''NUT-08-200'',
      warehouseId = ''PNQ-C'', stock = 80, demand = 80\<rparr>,
     \<lparr>idP = ''P-1004'', nameP = ''Bearing 608ZZ'', sku = ''BRG-608-50'',
      warehouseId = ''DEL-B'', stock = 24, demand = 120\<rparr>,
     \<lparr>idP = ''P-1005'', nameP = ''Steel Rod 10mm'', sku = ''ROD-10-300'',
      warehouseId = ''MUM-A'', stock = 200, demand = 150\<rparr>,
     \<lparr>idP = ''P-1006'', nameP = ''Aluminum Sheet'', sku = ''ALU-SHT-200'',
      warehouseId = ''BLR-B'', stock = 75, demand = 100\<rparr>]"

definition seed :: store where
  "seed = \<lparr>warehouses = seed_warehouses, products = seed_products\<rparr>"

section \<open>Helpers\<close>

text \<open>\<open>getStatus\<close>, lines 23 to 27.\<close>

definition getStatus :: "int \<Rightarrow> int \<Rightarrow> string" where
  "getStatus stk dem =
    (if stk > dem then ''healthy''
     else if stk = dem then ''low''
     else ''critical'')"

text \<open>\<open>getWarehouseById\<close>, line 30: the first warehouse with the id, if any.\<close>

definition getWarehouseById :: "store \<Rightarrow> string \<Rightarrow> warehouse option" where
  "getWarehouseById st ident = find (\<lambda>w. idW w = ident) (warehouses st)"

text \<open>
  \<open>Array.prototype.findIndex\<close>: the index of the first element that satisfies the
  predicate, \<open>-1\<close> when there is none.
\<close>

fun findIndex :: "('a \<Rightarrow> bool) \<Rightarrow> 'a list \<Rightarrow> int" where
  "findIndex P [] = - 1"
| "findIndex P (x # xs) =
    (if P x then 0
     else (let i = findIndex P xs in if i = - 1 then - 1 else i + 1))"

text \<open>The object spread \<open>{...product, warehouse: w, status: s}\<close>.\<close>

definition spread :: "product \<Rightarrow> warehouse option \<Rightarrow> string \<Rightarrow> product_view" where
  "spread p w s =
    \<lparr>idP = idP p, nameP = nameP p, sku = sku p, warehouseId = warehouseId p,
     stock = stock p, demand = demand p, warehouse = w, status = s\<rparr>"


subsection \<open>Strings and optional arguments\<close>

text \<open>
  \<open>String.prototype.toLowerCase\<close> on the ASCII letters; every other character is
  kept. (JavaScript lowers the letters of all of Unicode; no result below depends
  on which characters are lowered.)
\<close>

definition lowerChar :: "char \<Rightarrow> char" where
  "lowerChar c =
    (let n = (of_char c :: nat) in if 65 \<le> n \<and> n \<le> 90 then char_of (n + 32) else c)"

definition toLowerCase :: "string \<Rightarrow> string" where
  "toLowerCase s = map lowerChar s"

text \<open>\<open>s.includes(t)\<close>: \<open>t\<close> occurs in \<open>s\<close> as a contiguous substring. (\<open>includes\<close> is a keyword of Isabelle.)\<close>

definition includes_str :: "string \<Rightarrow> string \<Rightarrow> bool" where
  "includes_str s t = sublist t s"

text \<open>
  The test \<open>if (x)\<close> on an optional string: \<open>undefined\<close>, \<open>null\<close> and the empty
  string are falsy; any other string is truthy and is the value the branch uses.
\<close>

fun truthy :: "string js_arg \<Rightarrow> string option" where
  "truthy (Val s) = (if s = [] then None else Some s)"
| "truthy Null = None"
| "truthy Undefined = None"

text \<open>
  A destructured object argument with the default \<open>{}\<close> (line 92, then lines 93 and
  94): a missing argument takes the default, an explicit \<open>null\<close> does not and the
  destructuring \<open>const { ... } = null\<close> throws a \<open>TypeError\<close>.
\<close>

fun destructure :: "'a \<Rightarrow> 'a js_arg \<Rightarrow> error + 'a" where
  "destructure dflt Undefined = Inr dflt"
| "destructure dflt Null = Inl TypeError"
| "destructure dflt (Val v) = Inr v"

definition noFilters :: ProductFilters where
  "noFilters = \<lparr>search = Undefined, filter_warehouseId = Undefined, filter_status = Undefined\<rparr>"

definition noPagination :: PaginationInput where
  "noPagination = \<lparr>page = Undefined, limit = Undefined\<rparr>"

text \<open>
  A destructured number with a default (\<open>{ page = 0, limit = 100 }\<close>): the default
  replaces \<open>undefined\<close> only. A \<open>null\<close> stays, and \<open>+\<close>, \<open>>\<close>, \<open><\<close> and \<open>slice\<close>, the
  only places the value is used, convert it to \<open>0\<close>.
\<close>

fun number_or :: "int \<Rightarrow> int js_arg \<Rightarrow> int" where
  "number_or dflt Undefined = dflt"
| "number_or dflt Null = 0"
| "number_or dflt (Val n) = n"

text \<open>The numbers \<open>page\<close> and \<open>limit\<close> that the resolver computes with.\<close>

abbreviation pageOf :: "PaginationInput \<Rightarrow> int" where
  "pageOf pg \<equiv> number_or 0 (page pg)"

abbreviation limitOf :: "PaginationInput \<Rightarrow> int" where
  "limitOf pg \<equiv> number_or 100 (limit pg)"

text \<open>
  \<open>Array.prototype.slice(start, fin)\<close>: a negative bound counts from the end of the
  array, both bounds are clamped to the array, and the result is empty when the
  end is not after the start.
\<close>

definition slice :: "'a list \<Rightarrow> int \<Rightarrow> int \<Rightarrow> 'a list" where
  "slice xs start fin =
    (let len = int (length xs);
         k = (if start < 0 then max (len + start) 0 else min start len);
         final = (if fin < 0 then max (len + fin) 0 else min fin len)
     in take (nat (final - k)) (drop (nat k) xs))"

section \<open>The query resolver \<open>products\<close> (lines 92 to 132)\<close>

text \<open>Lines 96 to 100: every product joined with its warehouse and its status.\<close>

definition joined :: "store \<Rightarrow> product \<Rightarrow> product_view" where
  "joined st p =
    spread p (getWarehouseById st (warehouseId p)) (getStatus (stock p) (demand p))"

text \<open>
  Lines 96 to 117: the variable \<open>filtered\<close> after the three guarded filters, each
  applied to the result of the one before.
\<close>

definition applyFilters :: "store \<Rightarrow> ProductFilters \<Rightarrow> product_view list" where
  "applyFilters st f =
    (let filtered0 = map (joined st) (products st);
         filtered1 =
           (case truthy (search f) of
              Some s \<Rightarrow>
                (let searchLower = toLowerCase s
                 in filter (\<lambda>p. includes_str (toLowerCase (nameP p)) searchLower
                                \<or> includes_str (toLowerCase (sku p)) searchLower) filtered0)
            | None \<Rightarrow> filtered0);
         filtered2 =
           (case truthy (filter_warehouseId f) of
              Some wid \<Rightarrow> filter (\<lambda>p. warehouseId p = wid) filtered1
            | None \<Rightarrow> filtered1);
         filtered3 =
           (case truthy (filter_status f) of
              Some sts \<Rightarrow> filter (\<lambda>p. status p = sts) filtered2
            | None \<Rightarrow> filtered2)
     in filtered3)"

text \<open>
  The resolver. It reads the store and writes nothing, so it returns no store.
  \<open>console.log\<close> is left out.
\<close>

definition products_query ::
  "store \<Rightarrow> ProductFilters js_arg \<Rightarrow> PaginationInput js_arg \<Rightarrow> error + ProductConnection" where
  "products_query st filters pagination =
    (case destructure noFilters filters of
       Inl e \<Rightarrow> Inl e
     | Inr f \<Rightarrow>
        (case destructure noPagination pagination of
           Inl e \<Rightarrow> Inl e
         | Inr pg \<Rightarrow>
            (let pageN = number_or 0 (page pg);
                 limitN = number_or 100 (limit pg);
                 filtered = applyFilters st f;
                 totalN = int (length filtered);
                 its = slice filtered pageN (pageN + limitN)
             in Inr \<lparr>items = its, total = totalN,
                     pageInfo = \<lparr>hasNextPage = (pageN + limitN < totalN),
                                 hasPreviousPage = (pageN > 0)\<rparr>\<rparr>)))"

section \<open>The mutation resolvers (lines 162 to 212)\<close>

text \<open>
  A mutation returns its outcome (the thrown error or the returned object) and the
  store as it is when the resolver ends. Every \<open>throw\<close> returns the store it has
  at that point of the code.
\<close>

definition updateDemand :: "store \<Rightarrow> string \<Rightarrow> int \<Rightarrow> (error + product_view) \<times> store" where
  "updateDemand st productId dem =
    (let productIndex = findIndex (\<lambda>p. idP p = productId) (products st) in
     if productIndex = - 1 then (Inl (ProductNotFound productId), st)
     else
       (let i = nat productIndex;
            st1 = st\<lparr>products := (products st)[i := (products st ! i)\<lparr>demand := dem\<rparr>]\<rparr>;
            p = products st1 ! i
        in (Inr (spread p (getWarehouseById st1 (warehouseId p)) (getStatus (stock p) dem)),
            st1)))"

text \<open>
  In \<open>transferStock\<close> the constant \<open>product\<close> is the array's own object, so
  \<open>product.demand\<close> on line 208 reads the object after the two writes.
\<close>

definition transferStock ::
  "store \<Rightarrow> string \<Rightarrow> string \<Rightarrow> string \<Rightarrow> int \<Rightarrow> (error + product_view) \<times> store" where
  "transferStock st productId fromWarehouse toWarehouse quantity =
    (let productIndex = findIndex (\<lambda>p. idP p = productId) (products st) in
     if productIndex = - 1 then (Inl (ProductNotFound productId), st)
     else
       (let i = nat productIndex;
            product = products st ! i
        in if warehouseId product \<noteq> fromWarehouse
             then (Inl (InvalidSource fromWarehouse), st)
           else if getWarehouseById st toWarehouse = None
             then (Inl (WarehouseNotFound toWarehouse), st)
           else if quantity > stock product
             then (Inl (InsufficientStock quantity (stock product)), st)
           else
             (let st1 = st\<lparr>products :=
                          (products st)[i := (products st ! i)\<lparr>warehouseId := toWarehouse\<rparr>]\<rparr>;
                  st2 = st1\<lparr>products :=
                          (products st1)[i := (products st1 ! i)\<lparr>stock := quantity\<rparr>]\<rparr>;
                  p = products st2 ! i
              in (Inr (spread p (getWarehouseById st2 toWarehouse)
                         (getStatus quantity (demand p))),
                  st2))))"

section \<open>Reachable stores and their invariants\<close>

text \<open>The values of the GraphQL type \<open>Int\<close>.\<close>

definition graphql_Int :: "int \<Rightarrow> bool" where
  "graphql_Int n = (- (2 ^ 31) \<le> n \<and> n < 2 ^ 31)"

text \<open>
  The stores the process can hold: the seed, and the store after any call of a
  mutation (failed or not) whose integer argument satisfies \<open>accepts\<close>. With
  \<open>accepts = graphql_Int\<close> these are the stores the interface can produce.
\<close>

inductive reachable :: "(int \<Rightarrow> bool) \<Rightarrow> store \<Rightarrow> bool" for accepts :: "int \<Rightarrow> bool" where
  start: "reachable accepts seed"
| demand_step:
    "reachable accepts st \<Longrightarrow> accepts dem \<Longrightarrow>
     reachable accepts (snd (updateDemand st productId dem))"
| transfer_step:
    "reachable accepts st \<Longrightarrow> accepts quantity \<Longrightarrow>
     reachable accepts (snd (transferStock st productId fromWarehouse toWarehouse quantity))"

definition stock_demand_nonneg :: "store \<Rightarrow> bool" where
  "stock_demand_nonneg st = list_all (\<lambda>p. 0 \<le> stock p \<and> 0 \<le> demand p) (products st)"

definition warehouses_resolve :: "store \<Rightarrow> bool" where
  "warehouses_resolve st =
    list_all (\<lambda>p. getWarehouseById st (warehouseId p) \<noteq> None) (products st)"

section \<open>The specification's wording, for comparison with the code\<close>

text \<open>
  The failure of \<open>transferStock\<close> as the specification lists it: the four checks
  in the specification's order, each on the product that \<open>productId\<close> names.
\<close>

definition transferStock_failure_spec ::
  "store \<Rightarrow> string \<Rightarrow> string \<Rightarrow> string \<Rightarrow> int \<Rightarrow> error option" where
  "transferStock_failure_spec st productId fromWarehouse toWarehouse quantity =
    (case find (\<lambda>p. idP p = productId) (products st) of
       None \<Rightarrow> Some (ProductNotFound productId)
     | Some p \<Rightarrow>
        (if warehouseId p \<noteq> fromWarehouse then Some (InvalidSource fromWarehouse)
         else if toWarehouse \<notin> idW ` set (warehouses st) then Some (WarehouseNotFound toWarehouse)
         else if quantity > stock p then Some (InsufficientStock quantity (stock p))
         else None))"

text \<open>
  A product passes the filters when it passes each filter that is given (its
  field holds a non-empty string): the search string occurs, case-insensitively,
  in its name or its sku; its \<open>warehouseId\<close> is the one asked for; its status is
  the one asked for.
\<close>

definition passes_filters :: "ProductFilters \<Rightarrow> product_view \<Rightarrow> bool" where
  "passes_filters f v =
    ((case truthy (search f) of
        None \<Rightarrow> True
      | Some s \<Rightarrow> includes_str (toLowerCase (nameP v)) (toLowerCase s)
                  \<or> includes_str (toLowerCase (sku v)) (toLowerCase s))
     \<and> (case truthy (filter_warehouseId f) of None \<Rightarrow> True | Some wid \<Rightarrow> warehouseId v = wid)
     \<and> (case truthy (filter_status f) of None \<Rightarrow> True | Some sts \<Rightarrow> status v = sts))"

text \<open>
  The slice of the specification: it starts at offset \<open>page\<close>, has \<open>limit\<close>
  elements, is clamped to the elements there are, and is empty when the offset
  is not below the total.
\<close>

definition slice_spec :: "'a list \<Rightarrow> int \<Rightarrow> int \<Rightarrow> 'a list" where
  "slice_spec xs pageN limitN =
    (if pageN \<ge> int (length xs) then [] else take (nat limitN) (drop (nat pageN) xs))"

section \<open>Facts about the helpers\<close>

subsection \<open>\<open>findIndex\<close> and \<open>find\<close>\<close>

lemma findIndex_range: "- 1 \<le> findIndex P xs \<and> findIndex P xs < int (length xs)"
  by (induction xs) (auto simp: Let_def)

lemma findIndex_none: "findIndex P xs = - 1 \<longleftrightarrow> (\<forall>x\<in>set xs. \<not> P x)"
proof (induction xs)
  case Nil
  show ?case by simp
next
  case (Cons x xs)
  have "- 1 \<le> findIndex P xs" by (simp add: findIndex_range)
  with Cons show ?case by (auto simp: Let_def)
qed

lemma findIndex_sat: "findIndex P xs \<noteq> - 1 \<Longrightarrow> P (xs ! nat (findIndex P xs))"
proof (induction xs)
  case Nil
  then show ?case by simp
next
  case (Cons x xs)
  have r: "- 1 \<le> findIndex P xs" by (simp add: findIndex_range)
  show ?case
  proof (cases "P x")
    case True
    then show ?thesis by simp
  next
    case False
    with Cons.prems have ne: "findIndex P xs \<noteq> - 1" by (auto simp: Let_def)
    with r have "nat (findIndex P xs + 1) = Suc (nat (findIndex P xs))" by linarith
    with False ne Cons.IH show ?thesis by (simp add: Let_def)
  qed
qed

lemma findIndex_find:
  "find P xs = (if findIndex P xs = - 1 then None else Some (xs ! nat (findIndex P xs)))"
proof (induction xs)
  case Nil
  show ?case by simp
next
  case (Cons x xs)
  have r: "- 1 \<le> findIndex P xs" by (simp add: findIndex_range)
  show ?case
  proof (cases "P x")
    case True
    then show ?thesis by simp
  next
    case False
    show ?thesis
    proof (cases "findIndex P xs = - 1")
      case True
      with False Cons.IH show ?thesis by (simp add: Let_def)
    next
      case ne: False
      with r have "nat (findIndex P xs + 1) = Suc (nat (findIndex P xs))" by linarith
      with False ne Cons.IH show ?thesis by (simp add: Let_def)
    qed
  qed
qed

lemma findIndex_unique:
  "distinct (map f xs) \<Longrightarrow> i < length xs \<Longrightarrow> f (xs ! i) = k \<Longrightarrow>
   findIndex (\<lambda>x. f x = k) xs = int i"
proof (induction xs arbitrary: i)
  case Nil
  then show ?case by simp
next
  case (Cons x xs)
  show ?case
  proof (cases i)
    case 0
    with Cons.prems show ?thesis by simp
  next
    case (Suc j)
    with Cons.prems have j: "j < length xs" "f (xs ! j) = k" "distinct (map f xs)" by auto
    from j(1) have "xs ! j \<in> set xs" by (rule nth_mem)
    then have "f (xs ! j) \<in> f ` set xs" by (rule imageI)
    with Cons.prems(1) j(2) have "f x \<noteq> k" by auto
    moreover from Cons.IH [OF j(3) j(1) j(2)] have "findIndex (\<lambda>x. f x = k) xs = int j" .
    ultimately show ?thesis using Suc by (simp add: Let_def)
  qed
qed

lemma getWarehouseById_products_update:
  "getWarehouseById (st\<lparr>products := ps\<rparr>) w = getWarehouseById st w"
  by (simp add: getWarehouseById_def)

lemma getWarehouseById_exists:
  "getWarehouseById st w \<noteq> None \<longleftrightarrow> w \<in> idW ` set (warehouses st)"
  by (auto simp: getWarehouseById_def find_None_iff)

subsection \<open>What the two mutations compute\<close>

lemma updateDemand_missing:
  "findIndex (\<lambda>p. idP p = pid) (products st) = - 1 \<Longrightarrow>
   updateDemand st pid d = (Inl (ProductNotFound pid), st)"
  by (simp add: updateDemand_def)

lemma updateDemand_at:
  assumes "findIndex (\<lambda>p. idP p = pid) (products st) = int i"
  shows "updateDemand st pid d =
    (Inr (spread ((products st ! i)\<lparr>demand := d\<rparr>)
            (getWarehouseById st (warehouseId (products st ! i)))
            (getStatus (stock (products st ! i)) d)),
     st\<lparr>products := (products st)[i := (products st ! i)\<lparr>demand := d\<rparr>]\<rparr>)"
proof -
  from findIndex_range [of "\<lambda>p. idP p = pid" "products st"] assms
  have "i < length (products st)" by simp
  with assms show ?thesis
    by (simp add: updateDemand_def Let_def getWarehouseById_products_update)
qed

lemma transferStock_missing:
  "findIndex (\<lambda>p. idP p = pid) (products st) = - 1 \<Longrightarrow>
   transferStock st pid fw tw q = (Inl (ProductNotFound pid), st)"
  by (simp add: transferStock_def)

lemma transferStock_at:
  assumes "findIndex (\<lambda>p. idP p = pid) (products st) = int i"
  shows "transferStock st pid fw tw q =
    (if warehouseId (products st ! i) \<noteq> fw then (Inl (InvalidSource fw), st)
     else if getWarehouseById st tw = None then (Inl (WarehouseNotFound tw), st)
     else if q > stock (products st ! i)
       then (Inl (InsufficientStock q (stock (products st ! i))), st)
     else
       (Inr (spread ((products st ! i)\<lparr>warehouseId := tw, stock := q\<rparr>)
               (getWarehouseById st tw) (getStatus q (demand (products st ! i)))),
        st\<lparr>products := (products st)[i := (products st ! i)\<lparr>warehouseId := tw, stock := q\<rparr>]\<rparr>))"
proof -
  from findIndex_range [of "\<lambda>p. idP p = pid" "products st"] assms
  have "i < length (products st)" by simp
  with assms show ?thesis
    by (simp add: transferStock_def Let_def getWarehouseById_products_update)
qed

lemma findIndex_cases:
  obtains (missing) "findIndex P xs = - 1" "\<forall>x\<in>set xs. \<not> P x"
  | (found) i where "findIndex P xs = int i" "i < length xs" "P (xs ! i)" "find P xs = Some (xs ! i)"
proof (cases "findIndex P xs = - 1")
  case True
  then show ?thesis using missing by (simp add: findIndex_none)
next
  case False
  with findIndex_range [of P xs] have "0 \<le> findIndex P xs" by linarith
  then obtain i where i: "findIndex P xs = int i" by (metis nat_0_le)
  with findIndex_range [of P xs] have "i < length xs" by simp
  moreover from findIndex_sat [OF False] i have "P (xs ! i)" by simp
  moreover from findIndex_find [of P xs] False i have "find P xs = Some (xs ! i)" by simp
  ultimately show ?thesis using found i by blast
qed

section \<open>The mutation engine\<close>

text \<open>
  Claim C1. Product identifiers are unique in the data model. For the product (at
  any index \<open>i\<close>) whose id is \<open>pid\<close>, whose \<open>warehouseId\<close> is \<open>fw\<close>, with \<open>tw\<close> the
  id of an existing warehouse and \<open>q\<close> at most the product's stock,
  \<open>transferStock\<close> succeeds; the store afterwards differs from the one before
  only in that product, whose \<open>warehouseId\<close> is \<open>tw\<close> and whose \<open>stock\<close> is exactly
  \<open>q\<close> (not the old stock minus \<open>q\<close>), its \<open>demand\<close> being the one it had; the
  returned object is that product joined with the warehouse \<open>tw\<close> names and with
  status \<open>getStatus q demand\<close>.
\<close>

theorem transferStock_effect:
  assumes "distinct (map idP (products st))"
    and "i < length (products st)"
    and "idP (products st ! i) = pid"
    and "warehouseId (products st ! i) = fw"
    and "tw \<in> idW ` set (warehouses st)"
    and "q \<le> stock (products st ! i)"
  shows "transferStock st pid fw tw q =
      (Inr (spread ((products st ! i)\<lparr>warehouseId := tw, stock := q\<rparr>)
              (getWarehouseById st tw) (getStatus q (demand (products st ! i)))),
       st\<lparr>products := (products st)[i := (products st ! i)\<lparr>warehouseId := tw, stock := q\<rparr>]\<rparr>)
    \<and> warehouseId (products (snd (transferStock st pid fw tw q)) ! i) = tw
    \<and> stock (products (snd (transferStock st pid fw tw q)) ! i) = q
    \<and> demand (products (snd (transferStock st pid fw tw q)) ! i) = demand (products st ! i)
    \<and> (\<exists>w \<in> set (warehouses st). idW w = tw \<and> getWarehouseById st tw = Some w)"
proof -
  from assms(1-3) have ix: "findIndex (\<lambda>p. idP p = pid) (products st) = int i"
    by (rule findIndex_unique)
  from assms(5) have "getWarehouseById st tw \<noteq> None"
    using getWarehouseById_exists [of st tw] by blast
  then obtain w where w: "getWarehouseById st tw = Some w" by blast
  then have "w \<in> set (warehouses st)" "idW w = tw"
    by (auto simp: getWarehouseById_def find_Some_iff)
  with w have ex: "\<exists>w \<in> set (warehouses st). idW w = tw \<and> getWarehouseById st tw = Some w"
    by blast
  have eq: "transferStock st pid fw tw q =
      (Inr (spread ((products st ! i)\<lparr>warehouseId := tw, stock := q\<rparr>)
              (getWarehouseById st tw) (getStatus q (demand (products st ! i)))),
       st\<lparr>products := (products st)[i := (products st ! i)\<lparr>warehouseId := tw, stock := q\<rparr>]\<rparr>)"
    using transferStock_at [OF ix, of fw tw q] assms(4,6) w by simp
  from eq assms(2) ex show ?thesis by simp
qed


theorem transferStock_effect_witness:
  "fst (transferStock seed ''P-1001'' ''BLR-A'' ''BLR-B'' 100) =
     Inr \<lparr>idP = ''P-1001'', nameP = ''12mm Hex Bolt'', sku = ''HEX-12-100'',
          warehouseId = ''BLR-B'', stock = 100, demand = 120,
          warehouse = Some \<lparr>idW = ''BLR-B'', nameW = ''Bangalore Warehouse B''\<rparr>,
          status = ''critical''\<rparr>
   \<and> map (\<lambda>p. (idP p, warehouseId p, stock p, demand p))
         (products (snd (transferStock seed ''P-1001'' ''BLR-A'' ''BLR-B'' 100))) =
       [(''P-1001'', ''BLR-B'', 100, 120), (''P-1002'', ''BLR-A'', 50, 80),
        (''P-1003'', ''PNQ-C'', 80, 80), (''P-1004'', ''DEL-B'', 24, 120),
        (''P-1005'', ''MUM-A'', 200, 150), (''P-1006'', ''BLR-B'', 75, 100)]"
  using transferStock_effect [of seed 0 "''P-1001''" "''BLR-A''" "''BLR-B''" 100]
  by (simp add: seed_def seed_products_def seed_warehouses_def spread_def
      getWarehouseById_def getStatus_def)

text \<open>
  Claim C7. For the product (at any index \<open>i\<close>) whose id is \<open>pid\<close>, and any integer
  \<open>d\<close>, \<open>updateDemand\<close> succeeds and writes the \<open>demand\<close> field of that product
  only: its id, name, sku, \<open>warehouseId\<close> and \<open>stock\<close>, every other product and
  the warehouses are as before. The returned object is the product joined with
  its warehouse and with status \<open>getStatus stock d\<close>.
\<close>

theorem updateDemand_frame:
  assumes "distinct (map idP (products st))"
    and "i < length (products st)"
    and "idP (products st ! i) = pid"
  shows "updateDemand st pid d =
      (Inr (spread ((products st ! i)\<lparr>demand := d\<rparr>)
              (getWarehouseById st (warehouseId (products st ! i)))
              (getStatus (stock (products st ! i)) d)),
       st\<lparr>products := (products st)[i := (products st ! i)\<lparr>demand := d\<rparr>]\<rparr>)
    \<and> warehouses (snd (updateDemand st pid d)) = warehouses st
    \<and> length (products (snd (updateDemand st pid d))) = length (products st)
    \<and> (\<forall>j < length (products st). j \<noteq> i \<longrightarrow>
          products (snd (updateDemand st pid d)) ! j = products st ! j)
    \<and> products (snd (updateDemand st pid d)) ! i = (products st ! i)\<lparr>demand := d\<rparr>"
proof -
  from assms have ix: "findIndex (\<lambda>p. idP p = pid) (products st) = int i"
    by (rule findIndex_unique)
  from updateDemand_at [OF ix, of d] assms(2) show ?thesis by simp
qed

theorem updateDemand_frame_witness:
  "updateDemand seed ''P-1002'' 40 =
     (Inr \<lparr>idP = ''P-1002'', nameP = ''Steel Washer'', sku = ''WSR-08-500'',
           warehouseId = ''BLR-A'', stock = 50, demand = 40,
           warehouse = Some \<lparr>idW = ''BLR-A'', nameW = ''Bangalore Warehouse A''\<rparr>,
           status = ''healthy''\<rparr>,
      seed\<lparr>products := seed_products
              [1 := \<lparr>idP = ''P-1002'', nameP = ''Steel Washer'', sku = ''WSR-08-500'',
                     warehouseId = ''BLR-A'', stock = 50, demand = 40\<rparr>]\<rparr>)"
  using updateDemand_frame [of seed 1 "''P-1002''" 40]
  by (simp add: seed_def seed_products_def seed_warehouses_def spread_def
      getWarehouseById_def getStatus_def)

text \<open>
  Claim C2. \<open>transferStock\<close> fails exactly when the specification's list of
  failures names one, and with the first error of that list: no product has the
  id; else the product's \<open>warehouseId\<close> is not \<open>fw\<close>; else no warehouse has the id
  \<open>tw\<close>; else \<open>q\<close> exceeds the product's stock. When none holds it succeeds.
\<close>

theorem transferStock_failure_order:
  "(case fst (transferStock st pid fw tw q) of Inl e \<Rightarrow> Some e | Inr v \<Rightarrow> None) =
     transferStock_failure_spec st pid fw tw q
   \<and> isl (fst (transferStock st pid fw tw q)) =
       (transferStock_failure_spec st pid fw tw q \<noteq> None)"
proof (rule findIndex_cases [where P = "\<lambda>p. idP p = pid" and xs = "products st"], goal_cases missing found)
  case missing
  from missing(2) have "find (\<lambda>p. idP p = pid) (products st) = None"
    by (simp add: find_None_iff)
  with transferStock_missing [OF missing(1), of fw tw q] show ?thesis
    by (simp add: transferStock_failure_spec_def)
next
  case (found i)
  have w: "(getWarehouseById st tw = None) = (tw \<notin> idW ` set (warehouses st))"
    using getWarehouseById_exists [of st tw] by blast
  from transferStock_at [OF found(1), of fw tw q] found(4) w show ?thesis
    by (simp add: transferStock_failure_spec_def)
qed

theorem transferStock_failure_order_witness:
  "transferStock_failure_spec seed ''P-9'' ''BLR-A'' ''BLR-X'' 1000 = Some (ProductNotFound ''P-9'')
   \<and> fst (transferStock seed ''P-9'' ''BLR-A'' ''BLR-X'' 1000) = Inl (ProductNotFound ''P-9'')
   \<and> fst (transferStock seed ''P-1001'' ''BLR-B'' ''BLR-X'' 1000) = Inl (InvalidSource ''BLR-B'')
   \<and> fst (transferStock seed ''P-1001'' ''BLR-A'' ''BLR-X'' 1000) = Inl (WarehouseNotFound ''BLR-X'')
   \<and> fst (transferStock seed ''P-1001'' ''BLR-A'' ''BLR-B'' 1000) = Inl (InsufficientStock 1000 180)
   \<and> \<not> isl (fst (transferStock seed ''P-1001'' ''BLR-A'' ''BLR-B'' 180))"
proof -
  have s: "transferStock_failure_spec seed ''P-9'' ''BLR-A'' ''BLR-X'' 1000 = Some (ProductNotFound ''P-9'')"
    "transferStock_failure_spec seed ''P-1001'' ''BLR-B'' ''BLR-X'' 1000 = Some (InvalidSource ''BLR-B'')"
    "transferStock_failure_spec seed ''P-1001'' ''BLR-A'' ''BLR-X'' 1000 = Some (WarehouseNotFound ''BLR-X'')"
    "transferStock_failure_spec seed ''P-1001'' ''BLR-A'' ''BLR-B'' 1000 = Some (InsufficientStock 1000 180)"
    "transferStock_failure_spec seed ''P-1001'' ''BLR-A'' ''BLR-B'' 180 = None"
    by (simp_all add: transferStock_failure_spec_def seed_def seed_products_def seed_warehouses_def)
  show ?thesis
    using s
      transferStock_failure_order [of seed "''P-9''" "''BLR-A''" "''BLR-X''" 1000]
      transferStock_failure_order [of seed "''P-1001''" "''BLR-B''" "''BLR-X''" 1000]
      transferStock_failure_order [of seed "''P-1001''" "''BLR-A''" "''BLR-X''" 1000]
      transferStock_failure_order [of seed "''P-1001''" "''BLR-A''" "''BLR-B''" 1000]
      transferStock_failure_order [of seed "''P-1001''" "''BLR-A''" "''BLR-B''" 180]
    by (auto split: sum.splits)
qed

text \<open>
  Claim C3. A call of \<open>updateDemand\<close> or \<open>transferStock\<close> that fails leaves the
  store as it was. In particular \<open>transferStock\<close> on a product that is not in
  \<open>fw\<close> fails with \<open>InvalidSource\<close> and the store is unchanged.
\<close>

theorem failed_mutation_writes_nothing:
  "(isl (fst (updateDemand st pid d)) \<longrightarrow> snd (updateDemand st pid d) = st)
   \<and> (isl (fst (transferStock st pid fw tw q)) \<longrightarrow> snd (transferStock st pid fw tw q) = st)
   \<and> (find (\<lambda>p. idP p = pid) (products st) = Some p \<and> warehouseId p \<noteq> fw \<longrightarrow>
        transferStock st pid fw tw q = (Inl (InvalidSource fw), st))"
proof (rule findIndex_cases [where P = "\<lambda>p. idP p = pid" and xs = "products st"], goal_cases missing found)
  case missing
  from missing(2) have "find (\<lambda>p. idP p = pid) (products st) = None"
    by (simp add: find_None_iff)
  with updateDemand_missing [OF missing(1), of d] transferStock_missing [OF missing(1), of fw tw q]
  show ?thesis by simp
next
  case (found i)
  from updateDemand_at [OF found(1), of d] transferStock_at [OF found(1), of fw tw q] found(4)
  show ?thesis by auto
qed

theorem failed_mutation_writes_nothing_witness:
  "isl (fst (updateDemand seed ''P-9'' 40)) \<and> snd (updateDemand seed ''P-9'' 40) = seed
   \<and> isl (fst (transferStock seed ''P-1001'' ''BLR-A'' ''BLR-B'' 200))
   \<and> snd (transferStock seed ''P-1001'' ''BLR-A'' ''BLR-B'' 200) = seed
   \<and> transferStock seed ''P-1001'' ''PNQ-C'' ''BLR-B'' 100 = (Inl (InvalidSource ''PNQ-C''), seed)"
proof -
  have a: "isl (fst (updateDemand seed ''P-9'' 40))"
    by (simp add: updateDemand_def seed_def seed_products_def)
  have b: "isl (fst (transferStock seed ''P-1001'' ''BLR-A'' ''BLR-B'' 200))"
    by (simp add: transferStock_def seed_def seed_products_def seed_warehouses_def
        getWarehouseById_def)
  have c: "find (\<lambda>p. idP p = ''P-1001'') (products seed) = Some (products seed ! 0)
           \<and> warehouseId (products seed ! 0) \<noteq> ''PNQ-C''"
    by (simp add: seed_def seed_products_def)
  from a b c
    failed_mutation_writes_nothing [where st = seed and pid = "''P-9''" and d = 40]
    failed_mutation_writes_nothing [where st = seed and pid = "''P-1001''" and fw = "''BLR-A''"
      and tw = "''BLR-B''" and q = 200]
    failed_mutation_writes_nothing [where st = seed and pid = "''P-1001''" and fw = "''PNQ-C''"
      and tw = "''BLR-B''" and q = 100 and p = "products seed ! 0"]
  show ?thesis by simp
qed

subsection \<open>The store after a mutation\<close>

lemma updateDemand_store:
  "snd (updateDemand st pid d) = st
   \<or> (\<exists>i < length (products st).
        snd (updateDemand st pid d) =
          st\<lparr>products := (products st)[i := (products st ! i)\<lparr>demand := d\<rparr>]\<rparr>)"
proof (rule findIndex_cases [where P = "\<lambda>p. idP p = pid" and xs = "products st"],
    goal_cases missing found)
  case missing
  then show ?case by (simp add: updateDemand_missing)
next
  case (found i)
  from updateDemand_at [OF found(1), of d] found(2) show ?case by auto
qed

lemma transferStock_store:
  "snd (transferStock st pid fw tw q) = st
   \<or> (\<exists>i < length (products st). getWarehouseById st tw \<noteq> None \<and>
        snd (transferStock st pid fw tw q) =
          st\<lparr>products := (products st)[i := (products st ! i)\<lparr>warehouseId := tw, stock := q\<rparr>]\<rparr>)"
proof (rule findIndex_cases [where P = "\<lambda>p. idP p = pid" and xs = "products st"],
    goal_cases missing found)
  case missing
  then show ?case by (simp add: transferStock_missing)
next
  case (found i)
  from transferStock_at [OF found(1), of fw tw q] found(2) show ?case by auto
qed

lemma list_all_update: "list_all P xs \<Longrightarrow> P v \<Longrightarrow> list_all P (xs[i := v])"
  using set_update_subset_insert [of xs i v] by (auto simp: list_all_iff)

lemma list_all_nth: "list_all P xs \<Longrightarrow> i < length xs \<Longrightarrow> P (xs ! i)"
  by (simp add: list_all_length)

lemma stock_demand_nonneg_seed: "stock_demand_nonneg seed"
  by (simp add: stock_demand_nonneg_def seed_def seed_products_def)

lemma stock_demand_nonneg_updateDemand:
  assumes "stock_demand_nonneg st" and "0 \<le> d"
  shows "stock_demand_nonneg (snd (updateDemand st pid d))"
  using updateDemand_store [of st pid d]
proof (elim disjE exE conjE)
  assume "snd (updateDemand st pid d) = st"
  with assms show ?thesis by simp
next
  fix i
  assume i: "i < length (products st)"
    and s: "snd (updateDemand st pid d) =
      st\<lparr>products := (products st)[i := (products st ! i)\<lparr>demand := d\<rparr>]\<rparr>"
  from assms(1) i have "0 \<le> stock (products st ! i)"
    unfolding stock_demand_nonneg_def by (auto dest: list_all_nth)
  with assms show ?thesis
    unfolding s stock_demand_nonneg_def by (simp add: list_all_update)
qed

lemma stock_demand_nonneg_transferStock:
  assumes "stock_demand_nonneg st" and "0 \<le> q"
  shows "stock_demand_nonneg (snd (transferStock st pid fw tw q))"
  using transferStock_store [of st pid fw tw q]
proof (elim disjE exE conjE)
  assume "snd (transferStock st pid fw tw q) = st"
  with assms show ?thesis by simp
next
  fix i
  assume i: "i < length (products st)"
    and s: "snd (transferStock st pid fw tw q) =
      st\<lparr>products := (products st)[i := (products st ! i)\<lparr>warehouseId := tw, stock := q\<rparr>]\<rparr>"
  from assms(1) i have "0 \<le> demand (products st ! i)"
    unfolding stock_demand_nonneg_def by (auto dest: list_all_nth)
  with assms show ?thesis
    unfolding s stock_demand_nonneg_def by (simp add: list_all_update)
qed

lemma reachable_nonneg:
  assumes "\<And>n. accepts n \<Longrightarrow> 0 \<le> n" and "reachable accepts st"
  shows "stock_demand_nonneg st"
  using assms(2)
proof (induction rule: reachable.induct)
  case start
  show ?case by (rule stock_demand_nonneg_seed)
next
  case (demand_step st dem productId)
  then show ?case by (simp add: stock_demand_nonneg_updateDemand assms(1))
next
  case (transfer_step st quantity productId fromWarehouse toWarehouse)
  then show ?case by (simp add: stock_demand_nonneg_transferStock assms(1))
qed

section \<open>Invariants of the store\<close>

text \<open>
  Claim C4, as the code has it. Every product of the seed has \<open>stock \<ge> 0\<close> and
  \<open>demand \<ge> 0\<close>; \<open>updateDemand\<close> with a non-negative \<open>demand\<close> and \<open>transferStock\<close>
  with a non-negative \<open>quantity\<close> keep this, whether they succeed or fail; so it
  holds of every store reached through calls with non-negative integer arguments.
\<close>

theorem stock_demand_nonneg_preserved:
  "stock_demand_nonneg seed
   \<and> (stock_demand_nonneg st \<and> 0 \<le> d \<longrightarrow> stock_demand_nonneg (snd (updateDemand st pid d)))
   \<and> (stock_demand_nonneg st \<and> 0 \<le> q \<longrightarrow>
        stock_demand_nonneg (snd (transferStock st pid fw tw q)))
   \<and> ((\<forall>n. accepts n \<longrightarrow> 0 \<le> n) \<and> reachable accepts st' \<longrightarrow> stock_demand_nonneg st')"
  using stock_demand_nonneg_seed stock_demand_nonneg_updateDemand
    stock_demand_nonneg_transferStock reachable_nonneg [of accepts st']
  by blast

theorem stock_demand_nonneg_preserved_witness:
  "stock_demand_nonneg seed
   \<and> stock_demand_nonneg (snd (updateDemand seed ''P-1002'' 40))
   \<and> stock_demand_nonneg (snd (transferStock seed ''P-1001'' ''BLR-A'' ''BLR-B'' 100))
   \<and> reachable (\<lambda>n. graphql_Int n \<and> 0 \<le> n)
        (snd (transferStock (snd (updateDemand seed ''P-1002'' 40)) ''P-1001'' ''BLR-A'' ''BLR-B'' 100))
   \<and> stock_demand_nonneg
        (snd (transferStock (snd (updateDemand seed ''P-1002'' 40)) ''P-1001'' ''BLR-A'' ''BLR-B'' 100))"
proof -
  let ?acc = "\<lambda>n. graphql_Int n \<and> 0 \<le> n"
  have "reachable ?acc (snd (updateDemand seed ''P-1002'' 40))"
    by (intro reachable.demand_step reachable.start) (simp add: graphql_Int_def)
  then have r: "reachable ?acc
      (snd (transferStock (snd (updateDemand seed ''P-1002'' 40)) ''P-1001'' ''BLR-A'' ''BLR-B'' 100))"
    by (rule reachable.transfer_step) (simp add: graphql_Int_def)
  from r
    stock_demand_nonneg_preserved [where st = seed and d = 40 and pid = "''P-1002''"]
    stock_demand_nonneg_preserved [where st = seed and q = 100 and pid = "''P-1001''"
      and fw = "''BLR-A''" and tw = "''BLR-B''"]
    stock_demand_nonneg_preserved [where accepts = ?acc and st' =
      "snd (transferStock (snd (updateDemand seed ''P-1002'' 40)) ''P-1001'' ''BLR-A'' ''BLR-B'' 100)"]
  show ?thesis by simp
qed

text \<open>
  Claim C4 as stated, for every integer the interface accepts, fails: \<open>-1\<close> and
  \<open>-5\<close> are values of \<open>Int\<close>, neither resolver checks the sign, and the stores
  after \<open>updateDemand("P-1001", -1)\<close> and after
  \<open>transferStock("P-1001", "BLR-A", "BLR-B", -5)\<close> are reachable and hold a negative
  \<open>demand\<close> and a negative \<open>stock\<close>.
\<close>

theorem stock_demand_nonneg_counterexample:
  "graphql_Int (- 1)
   \<and> reachable graphql_Int (snd (updateDemand seed ''P-1001'' (- 1)))
   \<and> map demand (products (snd (updateDemand seed ''P-1001'' (- 1)))) = [- 1, 80, 80, 120, 150, 100]
   \<and> \<not> stock_demand_nonneg (snd (updateDemand seed ''P-1001'' (- 1)))
   \<and> graphql_Int (- 5)
   \<and> reachable graphql_Int (snd (transferStock seed ''P-1001'' ''BLR-A'' ''BLR-B'' (- 5)))
   \<and> map stock (products (snd (transferStock seed ''P-1001'' ''BLR-A'' ''BLR-B'' (- 5)))) =
       [- 5, 50, 80, 24, 200, 75]
   \<and> \<not> stock_demand_nonneg (snd (transferStock seed ''P-1001'' ''BLR-A'' ''BLR-B'' (- 5)))"
proof -
  have g: "graphql_Int (- 1)" "graphql_Int (- 5)" by (simp_all add: graphql_Int_def)
  have r1: "reachable graphql_Int (snd (updateDemand seed ''P-1001'' (- 1)))"
    using g(1) by (intro reachable.demand_step reachable.start)
  have r2: "reachable graphql_Int (snd (transferStock seed ''P-1001'' ''BLR-A'' ''BLR-B'' (- 5)))"
    using g(2) by (intro reachable.transfer_step reachable.start)
  have u: "products (snd (updateDemand seed ''P-1001'' (- 1))) =
      seed_products[0 := (seed_products ! 0)\<lparr>demand := - 1\<rparr>]"
    by (simp add: updateDemand_def Let_def seed_def seed_products_def)
  have t: "products (snd (transferStock seed ''P-1001'' ''BLR-A'' ''BLR-B'' (- 5))) =
      seed_products[0 := (seed_products ! 0)\<lparr>warehouseId := ''BLR-B'', stock := - 5\<rparr>]"
    by (simp add: transferStock_def Let_def seed_def seed_products_def seed_warehouses_def
        getWarehouseById_def)
  from g r1 r2 show ?thesis
    by (simp add: stock_demand_nonneg_def u t seed_products_def)
qed

lemma warehouses_updateDemand: "warehouses (snd (updateDemand st pid d)) = warehouses st"
  using updateDemand_store [of st pid d] by auto

lemma warehouses_transferStock: "warehouses (snd (transferStock st pid fw tw q)) = warehouses st"
  using transferStock_store [of st pid fw tw q] by auto

lemma warehouseIds_updateDemand:
  "map warehouseId (products (snd (updateDemand st pid d))) = map warehouseId (products st)"
  using updateDemand_store [of st pid d]
  by (auto simp: map_update list_update_same_conv)

lemma ids_updateDemand:
  "map idP (products (snd (updateDemand st pid d))) = map idP (products st)"
  using updateDemand_store [of st pid d]
  by (auto simp: map_update list_update_same_conv)

lemma ids_transferStock:
  "map idP (products (snd (transferStock st pid fw tw q))) = map idP (products st)"
  using transferStock_store [of st pid fw tw q]
  by (auto simp: map_update list_update_same_conv)

lemma warehouses_resolve_seed: "warehouses_resolve seed"
  by (simp add: warehouses_resolve_def getWarehouseById_def seed_def seed_products_def
      seed_warehouses_def)

lemma warehouses_resolve_updateDemand:
  assumes "warehouses_resolve st"
  shows "warehouses_resolve (snd (updateDemand st pid d))"
proof -
  let ?st' = "snd (updateDemand st pid d)"
  have g: "getWarehouseById ?st' = getWarehouseById st"
    by (simp add: getWarehouseById_def warehouses_updateDemand fun_eq_iff)
  have "list_all (\<lambda>w. getWarehouseById st w \<noteq> None) (map warehouseId (products ?st'))"
    using assms unfolding warehouseIds_updateDemand warehouses_resolve_def
    by (simp add: list_all_iff)
  with g show ?thesis by (simp add: warehouses_resolve_def list_all_iff)
qed

lemma warehouses_resolve_transferStock:
  assumes "warehouses_resolve st"
  shows "warehouses_resolve (snd (transferStock st pid fw tw q))"
  using transferStock_store [of st pid fw tw q]
proof (elim disjE exE conjE)
  assume "snd (transferStock st pid fw tw q) = st"
  with assms show ?thesis by simp
next
  fix i
  assume i: "i < length (products st)"
    and w: "getWarehouseById st tw \<noteq> None"
    and s: "snd (transferStock st pid fw tw q) =
      st\<lparr>products := (products st)[i := (products st ! i)\<lparr>warehouseId := tw, stock := q\<rparr>]\<rparr>"
  from assms w show ?thesis
    unfolding s warehouses_resolve_def
    by (simp add: getWarehouseById_products_update list_all_update)
qed

lemma transferStock_rejects_unknown_warehouse:
  assumes "tw \<notin> idW ` set (warehouses st)"
  shows "isl (fst (transferStock st pid fw tw q)) \<and> snd (transferStock st pid fw tw q) = st"
proof (rule findIndex_cases [where P = "\<lambda>p. idP p = pid" and xs = "products st"],
    goal_cases missing found)
  case missing
  then show ?case by (simp add: transferStock_missing)
next
  case (found i)
  from assms have "getWarehouseById st tw = None"
    using getWarehouseById_exists [of st tw] by blast
  with transferStock_at [OF found(1), of fw tw q] show ?case by simp
qed

lemma reachable_resolve: "reachable accepts st \<Longrightarrow> warehouses_resolve st"
proof (induction rule: reachable.induct)
  case start
  show ?case by (rule warehouses_resolve_seed)
next
  case (demand_step st dem productId)
  then show ?case by (simp add: warehouses_resolve_updateDemand)
next
  case (transfer_step st quantity productId fromWarehouse toWarehouse)
  then show ?case by (simp add: warehouses_resolve_transferStock)
qed

lemma reachable_ids:
  "reachable accepts st \<Longrightarrow>
   map idP (products st) = map idP seed_products \<and> warehouses st = seed_warehouses"
proof (induction rule: reachable.induct)
  case start
  show ?case by (simp add: seed_def)
next
  case (demand_step st dem productId)
  then show ?case by (simp add: ids_updateDemand warehouses_updateDemand)
next
  case (transfer_step st quantity productId fromWarehouse toWarehouse)
  then show ?case by (simp add: ids_transferStock warehouses_transferStock)
qed

lemma reachable_distinct_ids: "reachable accepts st \<Longrightarrow> distinct (map idP (products st))"
  by (simp add: reachable_ids seed_products_def)

text \<open>
  Claim C8. In every reachable store every product's \<open>warehouseId\<close> is the id of a
  warehouse of the store. It holds of the seed; \<open>updateDemand\<close> writes neither a
  \<open>warehouseId\<close> nor the warehouses; \<open>transferStock\<close> with a \<open>toWarehouse\<close> that
  names no warehouse fails and writes nothing, so it keeps the property. The
  argument values play no part: the property holds whatever integers are accepted.
\<close>

theorem warehouseId_always_resolves:
  "warehouses_resolve seed
   \<and> map warehouseId (products (snd (updateDemand st pid d))) = map warehouseId (products st)
   \<and> warehouses (snd (updateDemand st pid d)) = warehouses st
   \<and> (tw \<notin> idW ` set (warehouses st) \<longrightarrow>
        isl (fst (transferStock st pid fw tw q)) \<and> snd (transferStock st pid fw tw q) = st)
   \<and> (warehouses_resolve st \<longrightarrow> warehouses_resolve (snd (transferStock st pid fw tw q)))
   \<and> (reachable accepts st' \<longrightarrow> warehouses_resolve st')"
  using warehouses_resolve_seed warehouseIds_updateDemand [of st pid d]
    warehouses_updateDemand [of st pid d]
    transferStock_rejects_unknown_warehouse [of tw st pid fw q]
    warehouses_resolve_transferStock [of st pid fw tw q] reachable_resolve [of accepts st']
  by blast

theorem warehouseId_always_resolves_witness:
  "warehouses_resolve seed
   \<and> isl (fst (transferStock seed ''P-1001'' ''BLR-A'' ''BLR-X'' 100))
   \<and> snd (transferStock seed ''P-1001'' ''BLR-A'' ''BLR-X'' 100) = seed
   \<and> warehouses_resolve (snd (transferStock seed ''P-1001'' ''BLR-A'' ''BLR-B'' 100))
   \<and> reachable graphql_Int
        (snd (updateDemand (snd (transferStock seed ''P-1001'' ''BLR-A'' ''BLR-B'' 100)) ''P-1001'' (- 7)))
   \<and> warehouses_resolve
        (snd (updateDemand (snd (transferStock seed ''P-1001'' ''BLR-A'' ''BLR-B'' 100)) ''P-1001'' (- 7)))"
proof -
  have "reachable graphql_Int (snd (transferStock seed ''P-1001'' ''BLR-A'' ''BLR-B'' 100))"
    by (intro reachable.transfer_step reachable.start) (simp add: graphql_Int_def)
  then have r: "reachable graphql_Int
      (snd (updateDemand (snd (transferStock seed ''P-1001'' ''BLR-A'' ''BLR-B'' 100)) ''P-1001'' (- 7)))"
    by (rule reachable.demand_step) (simp add: graphql_Int_def)
  have x: "''BLR-X'' \<notin> idW ` set (warehouses seed)"
    by (simp add: seed_def seed_warehouses_def)
  from r x
    warehouseId_always_resolves [where st = seed and pid = "''P-1001''" and fw = "''BLR-A''"
      and tw = "''BLR-X''" and q = 100]
    warehouseId_always_resolves [where st = seed and pid = "''P-1001''" and fw = "''BLR-A''"
      and tw = "''BLR-B''" and q = 100]
    warehouseId_always_resolves [where accepts = graphql_Int and st' =
      "snd (updateDemand (snd (transferStock seed ''P-1001'' ''BLR-A'' ''BLR-B'' 100)) ''P-1001'' (- 7))"]
  show ?thesis by simp
qed

section \<open>The query engine\<close>

subsection \<open>Filtering and slicing\<close>

lemma applyFilters_passes:
  "applyFilters st f = filter (passes_filters f) (map (joined st) (products st))"
  by (cases "truthy (search f)"; cases "truthy (filter_warehouseId f)";
      cases "truthy (filter_status f)")
    (auto simp: applyFilters_def passes_filters_def [abs_def] Let_def intro!: filter_cong)

lemma slice_nonneg:
  assumes "0 \<le> p" and "0 \<le> l"
  shows "slice xs p (p + l) = take (nat l) (drop (nat p) xs)"
proof (cases "p < int (length xs)")
  case True
  with assms have k: "min p (int (length xs)) = p" by simp
  have "take (nat (min (p + l) (int (length xs)) - p)) (drop (nat p) xs)
      = take (nat l) (drop (nat p) xs)"
  proof (cases "p + l \<le> int (length xs)")
    case True
    then show ?thesis by (simp add: min_absorb1)
  next
    case False
    then have "min (p + l) (int (length xs)) = int (length xs)" by simp
    moreover from False assms have "length (drop (nat p) xs) \<le> nat l" by auto
    moreover from assms True have "length (drop (nat p) xs) \<le> nat (int (length xs) - p)"
      by auto
    ultimately show ?thesis by simp
  qed
  with assms k show ?thesis by (simp add: slice_def Let_def)
next
  case False
  with assms have "min p (int (length xs)) = int (length xs)" "length xs \<le> nat p"
    by auto
  with assms show ?thesis by (simp add: slice_def Let_def)
qed

lemma slice_spec_nonneg:
  "0 \<le> p \<Longrightarrow> slice_spec xs p l = take (nat l) (drop (nat p) xs)"
  by (auto simp: slice_spec_def)


lemma products_query_value:
  assumes "destructure noFilters filters = Inr f"
    and "destructure noPagination pagination = Inr pg"
  shows "products_query st filters pagination =
    Inr \<lparr>items = slice (applyFilters st f) (pageOf pg) (pageOf pg + limitOf pg),
         total = int (length (applyFilters st f)),
         pageInfo =
           \<lparr>hasNextPage = (pageOf pg + limitOf pg < int (length (applyFilters st f))),
            hasPreviousPage = (0 < pageOf pg)\<rparr>\<rparr>"
  using assms by (simp add: products_query_def Let_def)

text \<open>
  Claim C6, as the code has it. For filters and pagination that are given or
  omitted (not an explicit \<open>null\<close>), \<open>products\<close> returns: \<open>total\<close>, the number of
  joined products that pass the filters, counted before slicing;
  \<open>hasNextPage\<close>, true exactly when \<open>page + limit < total\<close>; \<open>hasPreviousPage\<close>,
  true exactly when \<open>page > 0\<close>; and \<open>items\<close>, the JavaScript \<open>slice\<close> from
  \<open>page\<close> to \<open>page + limit\<close> of the filtered sequence. When \<open>page \<ge> 0\<close> and
  \<open>limit \<ge> 0\<close> that slice is the specification's: the contiguous part that starts
  at offset \<open>page\<close>, of length at most \<open>limit\<close>, empty when \<open>page \<ge> total\<close>.
  Here \<open>page\<close> is \<open>0\<close> when omitted or \<open>null\<close>, and \<open>limit\<close> is \<open>100\<close> when omitted
  and \<open>0\<close> when \<open>null\<close>.
\<close>

theorem products_query_pagination:
  assumes "destructure noFilters filters = Inr f"
    and "destructure noPagination pagination = Inr pg"
  shows "products_query st filters pagination =
      Inr \<lparr>items = slice (applyFilters st f) (pageOf pg) (pageOf pg + limitOf pg),
           total = int (length (applyFilters st f)),
           pageInfo =
             \<lparr>hasNextPage = (pageOf pg + limitOf pg < int (length (applyFilters st f))),
              hasPreviousPage = (0 < pageOf pg)\<rparr>\<rparr>
    \<and> applyFilters st f = filter (passes_filters f) (map (joined st) (products st))
    \<and> (0 \<le> pageOf pg \<and> 0 \<le> limitOf pg \<longrightarrow>
         slice (applyFilters st f) (pageOf pg) (pageOf pg + limitOf pg)
           = slice_spec (applyFilters st f) (pageOf pg) (limitOf pg)
       \<and> slice_spec (applyFilters st f) (pageOf pg) (limitOf pg)
           = take (nat (limitOf pg)) (drop (nat (pageOf pg)) (applyFilters st f))
       \<and> int (length (slice_spec (applyFilters st f) (pageOf pg) (limitOf pg))) \<le> limitOf pg
       \<and> (int (length (applyFilters st f)) \<le> pageOf pg \<longrightarrow>
           slice_spec (applyFilters st f) (pageOf pg) (limitOf pg) = []))"
proof -
  let ?F = "applyFilters st f"
  let ?p = "pageOf pg"
  let ?l = "limitOf pg"
  note v = products_query_value [OF assms, of st]
  note F = applyFilters_passes [of st f]
  have s: "slice ?F ?p (?p + ?l) = slice_spec ?F ?p ?l"
    and t: "slice_spec ?F ?p ?l = take (nat ?l) (drop (nat ?p) ?F)"
    and n: "int (length (slice_spec ?F ?p ?l)) \<le> ?l"
    and e: "int (length ?F) \<le> ?p \<longrightarrow> slice_spec ?F ?p ?l = []"
    if "0 \<le> ?p" "0 \<le> ?l"
  proof -
    from that show t: "slice_spec ?F ?p ?l = take (nat ?l) (drop (nat ?p) ?F)"
      by (simp add: slice_spec_nonneg)
    from that show "slice ?F ?p (?p + ?l) = slice_spec ?F ?p ?l"
      by (simp add: slice_nonneg t)
    from that show "int (length (slice_spec ?F ?p ?l)) \<le> ?l"
      unfolding t by simp
    show "int (length ?F) \<le> ?p \<longrightarrow> slice_spec ?F ?p ?l = []"
      by (simp add: slice_spec_def)
  qed
  from v F s t n e show ?thesis by blast
qed

lemma joined_seed:
  "map (joined seed) seed_products =
    [\<lparr>idP = ''P-1001'', nameP = ''12mm Hex Bolt'', sku = ''HEX-12-100'',
      warehouseId = ''BLR-A'', stock = 180, demand = 120,
      warehouse = Some \<lparr>idW = ''BLR-A'', nameW = ''Bangalore Warehouse A''\<rparr>,
      status = ''healthy''\<rparr>,
     \<lparr>idP = ''P-1002'', nameP = ''Steel Washer'', sku = ''WSR-08-500'',
      warehouseId = ''BLR-A'', stock = 50, demand = 80,
      warehouse = Some \<lparr>idW = ''BLR-A'', nameW = ''Bangalore Warehouse A''\<rparr>,
      status = ''critical''\<rparr>,
     \<lparr>idP = ''P-1003'', nameP = ''M8 Nut'', sku = ''NUT-08-200'',
      warehouseId = ''PNQ-C'', stock = 80, demand = 80,
      warehouse = Some \<lparr>idW = ''PNQ-C'', nameW = ''Pune Warehouse C''\<rparr>,
      status = ''low''\<rparr>,
     \<lparr>idP = ''P-1004'', nameP = ''Bearing 608ZZ'', sku = ''BRG-608-50'',
      warehouseId = ''DEL-B'', stock = 24, demand = 120,
      warehouse = Some \<lparr>idW = ''DEL-B'', nameW = ''Delhi Warehouse B''\<rparr>,
      status = ''critical''\<rparr>,
     \<lparr>idP = ''P-1005'', nameP = ''Steel Rod 10mm'', sku = ''ROD-10-300'',
      warehouseId = ''MUM-A'', stock = 200, demand = 150,
      warehouse = Some \<lparr>idW = ''MUM-A'', nameW = ''Mumbai Warehouse A''\<rparr>,
      status = ''healthy''\<rparr>,
     \<lparr>idP = ''P-1006'', nameP = ''Aluminum Sheet'', sku = ''ALU-SHT-200'',
      warehouseId = ''BLR-B'', stock = 75, demand = 100,
      warehouse = Some \<lparr>idW = ''BLR-B'', nameW = ''Bangalore Warehouse B''\<rparr>,
      status = ''critical''\<rparr>]"
  by (simp add: joined_def spread_def getWarehouseById_def getStatus_def seed_def
      seed_products_def seed_warehouses_def)

lemma products_seed: "products seed = seed_products"
  by (simp add: seed_def)

lemma applyFilters_seed_none:
  "applyFilters seed noFilters = map (joined seed) seed_products"
  by (simp add: applyFilters_def noFilters_def seed_def)

lemma length_seed_products: "length seed_products = 6"
  by (simp add: seed_products_def)

lemma ids_seed_products:
  "map idP seed_products = [''P-1001'', ''P-1002'', ''P-1003'', ''P-1004'', ''P-1005'', ''P-1006'']"
  by (simp add: seed_products_def)

lemma ids_joined: "map idP (map (joined st) ps) = map idP ps"
  by (simp add: joined_def spread_def)

theorem products_query_pagination_witness:
  "products_query seed
     (Val \<lparr>search = Undefined, filter_warehouseId = Null, filter_status = Val ''critical''\<rparr>)
     (Val \<lparr>page = Val 1, limit = Val 1\<rparr>) =
   Inr \<lparr>items =
          [\<lparr>idP = ''P-1004'', nameP = ''Bearing 608ZZ'', sku = ''BRG-608-50'',
            warehouseId = ''DEL-B'', stock = 24, demand = 120,
            warehouse = Some \<lparr>idW = ''DEL-B'', nameW = ''Delhi Warehouse B''\<rparr>,
            status = ''critical''\<rparr>],
        total = 3,
        pageInfo = \<lparr>hasNextPage = True, hasPreviousPage = True\<rparr>\<rparr>"
proof -
  let ?f = "\<lparr>search = Undefined, filter_warehouseId = Null, filter_status = Val ''critical''\<rparr>"
  let ?pg = "\<lparr>page = Val 1, limit = Val 1\<rparr>"
  have F: "filter (passes_filters ?f) (map (joined seed) (products seed)) =
      [map (joined seed) seed_products ! 1, map (joined seed) seed_products ! 3,
       map (joined seed) seed_products ! 5]"
    by (simp add: products_seed joined_seed passes_filters_def)
  have d: "destructure noFilters (Val ?f) = Inr ?f" "destructure noPagination (Val ?pg) = Inr ?pg"
    by simp_all
  note T = products_query_pagination [OF d, of seed]
  from T [THEN conjunct1]
  have q: "products_query seed (Val ?f) (Val ?pg) =
      Inr \<lparr>items = slice (applyFilters seed ?f) 1 2,
           total = int (length (applyFilters seed ?f)),
           pageInfo = \<lparr>hasNextPage = (2 < int (length (applyFilters seed ?f))),
                       hasPreviousPage = True\<rparr>\<rparr>"
    by simp
  note a = T [THEN conjunct2, THEN conjunct1]
  from T [THEN conjunct2, THEN conjunct2]
  have s: "slice (applyFilters seed ?f) 1 2 = take 1 (drop 1 (applyFilters seed ?f))"
    by simp
  show ?thesis
    unfolding q s unfolding a F by (simp add: joined_seed)
qed


lemma products_query_seed_unfiltered:
  "products_query seed Undefined (Val \<lparr>page = Val p, limit = Val l\<rparr>) =
    Inr \<lparr>items = slice (map (joined seed) seed_products) p (p + l), total = 6,
         pageInfo = \<lparr>hasNextPage = (p + l < 6), hasPreviousPage = (0 < p)\<rparr>\<rparr>"
  by (simp add: products_query_def Let_def applyFilters_seed_none length_seed_products)

lemma slice_two_pages:
  assumes "0 \<le> p" and "0 \<le> l"
  shows "slice xs p (p + l) @ slice xs (p + l) (p + l + l) = slice xs p (p + (l + l))"
proof -
  have "take (nat l) (drop (nat p) xs) @ take (nat l) (drop (nat l) (drop (nat p) xs))
      = take (nat l + nat l) (drop (nat p) xs)"
    by (simp add: take_add)
  moreover from assms have "nat (p + l) = nat l + nat p" "nat (l + l) = nat l + nat l"
    by simp_all
  ultimately show ?thesis
    using assms slice_nonneg [of p l xs] slice_nonneg [of "p + l" l xs]
      slice_nonneg [of p "l + l" xs]
    by simp
qed

text \<open>
  Claim C6 as stated, for every pagination input, fails. On the seed with no
  filter: \<open>page = 0, limit = -1\<close> returns the first five products, more than
  \<open>limit\<close>, where the specification's slice is empty; \<open>page = -2, limit = 100\<close>
  returns the last two products, where the slice clamped to the sequence is all
  six; and an explicit \<open>null\<close> for \<open>pagination\<close> or \<open>filters\<close> returns no listing
  but a \<open>TypeError\<close>.
\<close>

theorem products_query_pagination_counterexample:
  "products_query seed Undefined (Val \<lparr>page = Val 0, limit = Val (- 1)\<rparr>) =
     Inr \<lparr>items = take 5 (map (joined seed) seed_products), total = 6,
          pageInfo = \<lparr>hasNextPage = True, hasPreviousPage = False\<rparr>\<rparr>
   \<and> length (take 5 (map (joined seed) seed_products)) = 5
   \<and> slice_spec (applyFilters seed noFilters) 0 (- 1) = []
   \<and> products_query seed Undefined (Val \<lparr>page = Val (- 2), limit = Val 100\<rparr>) =
     Inr \<lparr>items = drop 4 (map (joined seed) seed_products), total = 6,
          pageInfo = \<lparr>hasNextPage = False, hasPreviousPage = False\<rparr>\<rparr>
   \<and> map idP (drop 4 (map (joined seed) seed_products)) = [''P-1005'', ''P-1006'']
   \<and> map idP (slice_spec (applyFilters seed noFilters) (- 2) 100) =
       [''P-1001'', ''P-1002'', ''P-1003'', ''P-1004'', ''P-1005'', ''P-1006'']
   \<and> products_query seed Undefined Null = Inl TypeError
   \<and> products_query seed Null Undefined = Inl TypeError"
proof -
  let ?J = "map (joined seed) seed_products"
  have s1: "slice ?J 0 (0 + - 1) = take 5 ?J"
    by (simp add: slice_def length_seed_products)
  have s2: "slice ?J (- 2) (- 2 + 100) = drop 4 ?J"
    by (simp add: slice_def length_seed_products)
  have c1: "products_query seed Undefined (Val \<lparr>page = Val 0, limit = Val (- 1)\<rparr>) =
     Inr \<lparr>items = take 5 ?J, total = 6,
          pageInfo = \<lparr>hasNextPage = True, hasPreviousPage = False\<rparr>\<rparr>"
    unfolding products_query_seed_unfiltered s1 by simp
  have c2: "length (take 5 ?J) = 5" by (simp add: length_seed_products)
  have c3: "slice_spec (applyFilters seed noFilters) 0 (- 1) = []"
    by (simp add: slice_spec_def)
  have c4: "products_query seed Undefined (Val \<lparr>page = Val (- 2), limit = Val 100\<rparr>) =
     Inr \<lparr>items = drop 4 ?J, total = 6,
          pageInfo = \<lparr>hasNextPage = False, hasPreviousPage = False\<rparr>\<rparr>"
    unfolding products_query_seed_unfiltered s2 by simp
  have c5: "map idP (drop 4 ?J) = [''P-1005'', ''P-1006'']"
    unfolding drop_map ids_joined by (simp add: seed_products_def)
  have "slice_spec (applyFilters seed noFilters) (- 2) 100 = ?J"
    by (simp add: slice_spec_def applyFilters_seed_none length_seed_products)
  then have c6: "map idP (slice_spec (applyFilters seed noFilters) (- 2) 100) =
       [''P-1001'', ''P-1002'', ''P-1003'', ''P-1004'', ''P-1005'', ''P-1006'']"
    by (simp only: ids_joined ids_seed_products)
  have c7: "products_query seed Undefined Null = Inl TypeError"
    "products_query seed Null Undefined = Inl TypeError"
    by (simp_all add: products_query_def)
  from c1 c2 c3 c4 c5 c6 c7 show ?thesis by blast
qed

text \<open>
  Claim C9, as the code has it. Over a filtered sequence of six items, with
  \<open>limit = 2\<close>, the queries at \<open>page = 0\<close>, \<open>page = 2\<close> and \<open>page = 4\<close> return the
  items 1 to 2, 3 to 4 and 5 to 6: together, in this order, they are the whole
  sequence, with no overlap and no gap, and the first two together are its first
  four items. \<open>hasNextPage\<close> is true at \<open>page = 0\<close> and \<open>page = 2\<close> and false at
  \<open>page = 4\<close>, that is, exactly while \<open>page + limit < total\<close>. In general two
  successive offsets \<open>p\<close> and \<open>p + l\<close> return adjacent slices.
\<close>

theorem pagination_partition:
  assumes "destructure noFilters filters = Inr f"
    and "length (applyFilters st f) = 6"
  shows "products_query st filters (Val \<lparr>page = Val 0, limit = Val 2\<rparr>) =
      Inr \<lparr>items = take 2 (applyFilters st f), total = 6,
           pageInfo = \<lparr>hasNextPage = True, hasPreviousPage = False\<rparr>\<rparr>
    \<and> products_query st filters (Val \<lparr>page = Val 2, limit = Val 2\<rparr>) =
      Inr \<lparr>items = take 2 (drop 2 (applyFilters st f)), total = 6,
           pageInfo = \<lparr>hasNextPage = True, hasPreviousPage = True\<rparr>\<rparr>
    \<and> products_query st filters (Val \<lparr>page = Val 4, limit = Val 2\<rparr>) =
      Inr \<lparr>items = drop 4 (applyFilters st f), total = 6,
           pageInfo = \<lparr>hasNextPage = False, hasPreviousPage = True\<rparr>\<rparr>
    \<and> take 2 (applyFilters st f) @ take 2 (drop 2 (applyFilters st f))
        @ drop 4 (applyFilters st f) = applyFilters st f
    \<and> take 2 (applyFilters st f) @ take 2 (drop 2 (applyFilters st f))
        = take 4 (applyFilters st f)
    \<and> (0 \<le> p \<and> 0 \<le> l \<longrightarrow>
         slice (applyFilters st f) p (p + l) @ slice (applyFilters st f) (p + l) (p + l + l)
           = slice (applyFilters st f) p (p + (l + l)))"
proof -
  let ?F = "applyFilters st f"
  have d: "destructure noPagination (Val \<lparr>page = Val k, limit = Val 2\<rparr>)
      = Inr \<lparr>page = Val k, limit = Val 2\<rparr>" for k
    by simp
  have s0: "slice ?F 0 (0 + 2) = take 2 ?F"
    using slice_nonneg [of 0 2 ?F] by simp
  have s2: "slice ?F 2 (2 + 2) = take 2 (drop 2 ?F)"
    using slice_nonneg [of 2 2 ?F] by simp
  have s4: "slice ?F 4 (4 + 2) = drop 4 ?F"
    using slice_nonneg [of 4 2 ?F] assms(2) by simp
  have q0: "products_query st filters (Val \<lparr>page = Val 0, limit = Val 2\<rparr>) =
      Inr \<lparr>items = take 2 ?F, total = 6,
           pageInfo = \<lparr>hasNextPage = True, hasPreviousPage = False\<rparr>\<rparr>"
    using products_query_value [OF assms(1) d, of st 0] s0 assms(2) by simp
  have q2: "products_query st filters (Val \<lparr>page = Val 2, limit = Val 2\<rparr>) =
      Inr \<lparr>items = take 2 (drop 2 ?F), total = 6,
           pageInfo = \<lparr>hasNextPage = True, hasPreviousPage = True\<rparr>\<rparr>"
    using products_query_value [OF assms(1) d, of st 2] s2 assms(2) by simp
  have q4: "products_query st filters (Val \<lparr>page = Val 4, limit = Val 2\<rparr>) =
      Inr \<lparr>items = drop 4 ?F, total = 6,
           pageInfo = \<lparr>hasNextPage = False, hasPreviousPage = True\<rparr>\<rparr>"
    using products_query_value [OF assms(1) d, of st 4] s4 assms(2) by simp
  have t4: "take 2 ?F @ take 2 (drop 2 ?F) = take 4 ?F"
    using take_add [of 2 2 ?F] by simp
  have "(take 2 ?F @ take 2 (drop 2 ?F)) @ drop 4 ?F = ?F"
    unfolding t4 by (rule append_take_drop_id)
  then have all: "take 2 ?F @ take 2 (drop 2 ?F) @ drop 4 ?F = ?F"
    by simp
  from q0 q2 q4 t4 all slice_two_pages [of p l ?F] show ?thesis by blast
qed

theorem pagination_partition_witness:
  "products_query seed Undefined (Val \<lparr>page = Val 0, limit = Val 2\<rparr>) =
      Inr \<lparr>items = take 2 (map (joined seed) seed_products), total = 6,
           pageInfo = \<lparr>hasNextPage = True, hasPreviousPage = False\<rparr>\<rparr>
   \<and> products_query seed Undefined (Val \<lparr>page = Val 2, limit = Val 2\<rparr>) =
      Inr \<lparr>items = take 2 (drop 2 (map (joined seed) seed_products)), total = 6,
           pageInfo = \<lparr>hasNextPage = True, hasPreviousPage = True\<rparr>\<rparr>
   \<and> products_query seed Undefined (Val \<lparr>page = Val 4, limit = Val 2\<rparr>) =
      Inr \<lparr>items = drop 4 (map (joined seed) seed_products), total = 6,
           pageInfo = \<lparr>hasNextPage = False, hasPreviousPage = True\<rparr>\<rparr>
   \<and> take 2 (map (joined seed) seed_products) @ take 2 (drop 2 (map (joined seed) seed_products))
        @ drop 4 (map (joined seed) seed_products) = map (joined seed) seed_products"
proof -
  have d: "destructure noFilters Undefined = Inr noFilters" by simp
  have n: "length (applyFilters seed noFilters) = 6"
    by (simp add: applyFilters_seed_none length_seed_products)
  from pagination_partition [OF d n, of 0 0] show ?thesis
    by (simp add: applyFilters_seed_none)
qed

text \<open>
  Claim C9 as stated fails: on the six products of the seed, the queries at
  \<open>page = 0\<close> and \<open>page = 2\<close> with \<open>limit = 2\<close> return the first four products only;
  \<open>P-1005\<close> and \<open>P-1006\<close> are in neither, and \<open>hasNextPage\<close> is still true at
  \<open>page = 2\<close>.
\<close>

theorem pagination_partition_counterexample:
  "length (applyFilters seed noFilters) = 6
   \<and> products_query seed Undefined (Val \<lparr>page = Val 0, limit = Val 2\<rparr>) =
      Inr \<lparr>items = take 2 (map (joined seed) seed_products), total = 6,
           pageInfo = \<lparr>hasNextPage = True, hasPreviousPage = False\<rparr>\<rparr>
   \<and> products_query seed Undefined (Val \<lparr>page = Val 2, limit = Val 2\<rparr>) =
      Inr \<lparr>items = take 2 (drop 2 (map (joined seed) seed_products)), total = 6,
           pageInfo = \<lparr>hasNextPage = True, hasPreviousPage = True\<rparr>\<rparr>
   \<and> map idP (take 2 (map (joined seed) seed_products)
         @ take 2 (drop 2 (map (joined seed) seed_products))) =
       [''P-1001'', ''P-1002'', ''P-1003'', ''P-1004'']
   \<and> map idP (applyFilters seed noFilters) =
       [''P-1001'', ''P-1002'', ''P-1003'', ''P-1004'', ''P-1005'', ''P-1006'']
   \<and> take 2 (map (joined seed) seed_products) @ take 2 (drop 2 (map (joined seed) seed_products))
       \<noteq> applyFilters seed noFilters"
proof -
  have a: "map idP (take 2 (map (joined seed) seed_products)
         @ take 2 (drop 2 (map (joined seed) seed_products))) =
       [''P-1001'', ''P-1002'', ''P-1003'', ''P-1004'']"
    unfolding map_append take_map drop_map ids_joined by (simp add: seed_products_def)
  have b: "map idP (applyFilters seed noFilters) =
       [''P-1001'', ''P-1002'', ''P-1003'', ''P-1004'', ''P-1005'', ''P-1006'']"
    by (simp only: applyFilters_seed_none ids_joined ids_seed_products)
  have c: "take 2 (map (joined seed) seed_products)
      @ take 2 (drop 2 (map (joined seed) seed_products)) \<noteq> applyFilters seed noFilters"
  proof
    assume "take 2 (map (joined seed) seed_products)
      @ take 2 (drop 2 (map (joined seed) seed_products)) = applyFilters seed noFilters"
    then have "length (map idP (take 2 (map (joined seed) seed_products)
      @ take 2 (drop 2 (map (joined seed) seed_products))))
      = length (map idP (applyFilters seed noFilters))"
      by simp
    then show False unfolding a b by simp
  qed
  have n: "length (applyFilters seed noFilters) = 6"
    by (simp add: applyFilters_seed_none length_seed_products)
  have q: "products_query seed Undefined (Val \<lparr>page = Val 0, limit = Val 2\<rparr>) =
      Inr \<lparr>items = take 2 (map (joined seed) seed_products), total = 6,
           pageInfo = \<lparr>hasNextPage = True, hasPreviousPage = False\<rparr>\<rparr>"
    "products_query seed Undefined (Val \<lparr>page = Val 2, limit = Val 2\<rparr>) =
      Inr \<lparr>items = take 2 (drop 2 (map (joined seed) seed_products)), total = 6,
           pageInfo = \<lparr>hasNextPage = True, hasPreviousPage = True\<rparr>\<rparr>"
    by (simp_all add: products_query_seed_unfiltered slice_def length_seed_products)
  from a b c n q show ?thesis by blast
qed


lemma applyFilters_truthy:
  assumes "truthy (search f) = truthy (search g)"
    and "truthy (filter_warehouseId f) = truthy (filter_warehouseId g)"
    and "truthy (filter_status f) = truthy (filter_status g)"
  shows "applyFilters st f = applyFilters st g"
  using assms by (simp add: applyFilters_def)

text \<open>
  Claim C10. A filter field that holds the empty string gives the same result
  (items, total and pageInfo, or the same error) as the same query without that
  field, for each of \<open>search\<close>, \<open>warehouseId\<close> and \<open>status\<close>; in particular
  \<open>warehouseId = ""\<close> alone lists every product.
\<close>

theorem empty_string_filter_is_absent:
  "products_query st (Val (f\<lparr>search := Val []\<rparr>)) pagination =
     products_query st (Val (f\<lparr>search := Undefined\<rparr>)) pagination
   \<and> products_query st (Val (f\<lparr>filter_warehouseId := Val []\<rparr>)) pagination =
     products_query st (Val (f\<lparr>filter_warehouseId := Undefined\<rparr>)) pagination
   \<and> products_query st (Val (f\<lparr>filter_status := Val []\<rparr>)) pagination =
     products_query st (Val (f\<lparr>filter_status := Undefined\<rparr>)) pagination
   \<and> applyFilters st \<lparr>search = Undefined, filter_warehouseId = Val [],
        filter_status = Undefined\<rparr> = map (joined st) (products st)"
proof -
  have a: "applyFilters st (f\<lparr>search := Val []\<rparr>) = applyFilters st (f\<lparr>search := Undefined\<rparr>)"
    by (rule applyFilters_truthy) simp_all
  have b: "applyFilters st (f\<lparr>filter_warehouseId := Val []\<rparr>)
      = applyFilters st (f\<lparr>filter_warehouseId := Undefined\<rparr>)"
    by (rule applyFilters_truthy) simp_all
  have c: "applyFilters st (f\<lparr>filter_status := Val []\<rparr>)
      = applyFilters st (f\<lparr>filter_status := Undefined\<rparr>)"
    by (rule applyFilters_truthy) simp_all
  have d: "applyFilters st \<lparr>search = Undefined, filter_warehouseId = Val [],
        filter_status = Undefined\<rparr> = map (joined st) (products st)"
    by (simp add: applyFilters_def)
  show ?thesis
    by (cases pagination) (simp_all add: products_query_def Let_def a b c d)
qed

theorem empty_string_filter_is_absent_witness:
  "products_query seed
     (Val \<lparr>search = Undefined, filter_warehouseId = Val [], filter_status = Undefined\<rparr>)
     Undefined =
   Inr \<lparr>items = map (joined seed) seed_products, total = 6,
        pageInfo = \<lparr>hasNextPage = False, hasPreviousPage = False\<rparr>\<rparr>"
proof -
  have "products_query seed (Val noFilters) Undefined =
      Inr \<lparr>items = map (joined seed) seed_products, total = 6,
           pageInfo = \<lparr>hasNextPage = False, hasPreviousPage = False\<rparr>\<rparr>"
    by (simp add: products_query_def Let_def applyFilters_seed_none slice_def noPagination_def
        length_seed_products)
  with empty_string_filter_is_absent [of seed noFilters Undefined] show ?thesis
    by (simp add: noFilters_def)
qed

section \<open>The status deriver\<close>

text \<open>
  Claim C5. For all integers \<open>s\<close> and \<open>d\<close>, \<open>getStatus s d\<close> is one of \<open>healthy\<close>,
  \<open>low\<close>, \<open>critical\<close>: \<open>healthy\<close> exactly when \<open>s > d\<close>, \<open>low\<close> exactly when
  \<open>s = d\<close>, \<open>critical\<close> exactly when \<open>s < d\<close>; in particular \<open>getStatus s s\<close> is
  \<open>low\<close>. The function is total: it has a value, and no error, at every pair.
\<close>

theorem getStatus_three_way:
  "getStatus s d \<in> {''healthy'', ''low'', ''critical''}
   \<and> (s > d \<longrightarrow> getStatus s d = ''healthy'')
   \<and> (s = d \<longrightarrow> getStatus s d = ''low'')
   \<and> (s < d \<longrightarrow> getStatus s d = ''critical'')
   \<and> (getStatus s d = ''healthy'' \<longrightarrow> s > d)
   \<and> (getStatus s d = ''low'' \<longrightarrow> s = d)
   \<and> (getStatus s d = ''critical'' \<longrightarrow> s < d)
   \<and> getStatus s s = ''low''"
  by (simp add: getStatus_def)

theorem getStatus_three_way_witness:
  "getStatus 180 120 = ''healthy'' \<and> getStatus 80 80 = ''low''
   \<and> getStatus 50 80 = ''critical'' \<and> getStatus (- 3) (- 3) = ''low''"
  using getStatus_three_way [of 180 120] getStatus_three_way [of 80 80]
    getStatus_three_way [of 50 80] getStatus_three_way [of "- 3" "- 3"]
  by simp

end
